theory Spec2Isabelle
  imports Main "HOL-Library.AList"
begin

section \<open>Data model of the corpus manager\<close>

text \<open>
  The development follows \<^verbatim>\<open>corpus_manager.py\<close>, class \<^verbatim>\<open>CorpusManager\<close>.

  An exception of the Python code is a value of type \<open>error\<close>; a method that can raise
  returns a pair of its outcome (\<open>Inl\<close> the exception, \<open>Inr\<close> the returned value) and the
  manager as the call leaves it.
\<close>

datatype error = IndexError | KeyError | ProviderError

text \<open>
  An entry of a corpus is a Python dict from language code to phrase text; it keeps its
  insertion order through JSON, so it is an association list. \<open>k in d\<close> is
  \<open>map_of d k \<noteq> None\<close>.
\<close>

type_synonym entry = "(string \<times> string) list"

text \<open>Dict objects that are shared and mutated live in an object store; an address is a
  position of the store.\<close>

type_synonym addr = nat

text \<open>
  The JSON document that \<^verbatim>\<open>save_corpus\<close> writes. \<^verbatim>\<open>load_corpus\<close> reads the
  key \<^verbatim>\<open>data\<close> with a default, so the field is optional in a file that was written
  by something else.
\<close>

record corpus_info =
  info_name :: string
  info_data :: "entry list option"
  info_created_at :: string
  info_count :: nat

text \<open>
  A metadata dict, \<^verbatim>\<open>{'corpus': .., 'index': .., 'translations': ..}\<close>. A search
  result is a copy of such a dict with the keys \<^verbatim>\<open>similarity_score\<close> and
  \<^verbatim>\<open>corpus_name\<close> added; \<open>None\<close> is an absent key. The key
  \<^verbatim>\<open>translations\<close> is the field \<open>md_translations\<close>.
\<close>

record 's md =
  corpus :: string
  index :: nat
  md_translations :: entry
  similarity_score :: "'s option"
  corpus_name :: "string option"

text \<open>
  \<^verbatim>\<open>faiss.IndexFlatIP\<close> stores the vectors added to it, in order. What its search
  answers is a parameter of the model (\<open>isearch\<close> below), as is the embedding model
  (\<open>enc\<close>) and \<^verbatim>\<open>faiss.normalize_L2\<close> (\<open>nrm\<close>).
\<close>

datatype 'v faiss_index = IndexFlatIP (vectors: "'v list")

definition faiss_add :: "'v faiss_index \<Rightarrow> 'v list \<Rightarrow> 'v faiss_index" where
  "faiss_add ix vs = IndexFlatIP (vectors ix @ vs)"

text \<open>
  The manager. The corpus directory holds three kinds of files, told apart by their
  suffix (\<^verbatim>\<open>.json\<close>, \<^verbatim>\<open>_index.faiss\<close>, \<^verbatim>\<open>_metadata.pkl\<close>): one map per
  kind, keyed by corpus name. \<^verbatim>\<open>self.indexes\<close> is a dict whose key order is
  observed by the search over all corpora, so it is an association list in insertion order;
  \<^verbatim>\<open>self.metadata\<close> maps a corpus name to a list of metadata dict objects.
\<close>

record ('v, 's) manager =
  corpus_files :: "string \<rightharpoonup> corpus_info"
  index_files :: "string \<rightharpoonup> 'v faiss_index"
  metadata_files :: "string \<rightharpoonup> 's md list"
  indexes :: "(string \<times> 'v faiss_index) list"
  metadata :: "string \<rightharpoonup> addr list"
  heap :: "'s md list"

section \<open>Python lists\<close>

text \<open>\<^verbatim>\<open>xs[i]\<close>: a negative index counts from the end, and an index outside
  \<open>-len .. len - 1\<close> raises.\<close>

definition py_index :: "'a list \<Rightarrow> int \<Rightarrow> error + 'a" where
  "py_index xs i =
     (if 0 \<le> i then (if i < int (length xs) then Inr (xs ! nat i) else Inl IndexError)
      else if - int (length xs) \<le> i then Inr (xs ! nat (int (length xs) + i))
      else Inl IndexError)"

text \<open>\<^verbatim>\<open>xs[:k]\<close>: a negative bound counts from the end.\<close>

definition py_slice_to :: "'a list \<Rightarrow> int \<Rightarrow> 'a list" where
  "py_slice_to xs k =
     (if 0 \<le> k then take (nat k) xs else take (length xs - nat (- k)) xs)"

section \<open>Corpus store\<close>

text \<open>\<^verbatim>\<open>save_corpus\<close>; \<open>now\<close> is \<^verbatim>\<open>datetime.now().isoformat()\<close>.\<close>

definition save_corpus ::
  "('v, 's) manager \<Rightarrow> string \<Rightarrow> entry list \<Rightarrow> string \<Rightarrow> ('v, 's) manager" where
  "save_corpus st cname data now =
     st\<lparr>corpus_files := (corpus_files st)(cname \<mapsto>
          \<lparr>info_name = cname, info_data = Some data,
           info_created_at = now, info_count = length data\<rparr>)\<rparr>"

definition load_corpus :: "('v, 's) manager \<Rightarrow> string \<Rightarrow> entry list" where
  "load_corpus st cname =
     (case corpus_files st cname of
        None \<Rightarrow> []
      | Some info \<Rightarrow> (case info_data info of None \<Rightarrow> [] | Some d \<Rightarrow> d))"

section \<open>Index builder\<close>

text \<open>
  The loop of \<^verbatim>\<open>build_vector_index\<close> over \<^verbatim>\<open>enumerate(data)\<close>, from position
  \<open>idx\<close> on: the texts and the metadata dicts it appends, in order.
\<close>

fun extract_texts :: "string \<Rightarrow> string \<Rightarrow> nat \<Rightarrow> entry list \<Rightarrow> string list \<times> 's md list" where
  "extract_texts cname lang idx [] = ([], [])"
| "extract_texts cname lang idx (e # es) =
     (case map_of e lang of
        None \<Rightarrow> extract_texts cname lang (Suc idx) es
      | Some t \<Rightarrow>
          (case extract_texts cname lang (Suc idx) es of
             (ts, ms) \<Rightarrow>
               (t # ts,
                \<lparr>corpus = cname, index = idx, md_translations = e,
                 similarity_score = None, corpus_name = None\<rparr> # ms)))"

text \<open>\<^verbatim>\<open>embedding_model.encode(texts)\<close>: one vector per text, in order, unless the
  provider raises.\<close>

fun encode :: "(string \<Rightarrow> error + 'v) \<Rightarrow> string list \<Rightarrow> error + 'v list" where
  "encode enc [] = Inr []"
| "encode enc (t # ts) =
     (case enc t of
        Inl e \<Rightarrow> Inl e
      | Inr v \<Rightarrow> (case encode enc ts of Inl e \<Rightarrow> Inl e | Inr vs \<Rightarrow> Inr (v # vs)))"

definition build_vector_index ::
  "(string \<Rightarrow> error + 'v) \<Rightarrow> ('v \<Rightarrow> 'v) \<Rightarrow> ('v, 's) manager \<Rightarrow> string \<Rightarrow> string
     \<Rightarrow> (error + unit) \<times> ('v, 's) manager" where
  "build_vector_index enc nrm st cname source_lang =
     (let data = load_corpus st cname in
      if data = [] then (Inr (), st)
      else
        (case extract_texts cname source_lang 0 data of
           (texts, ms) \<Rightarrow>
             if texts = [] then (Inr (), st)
             else
               (let addrs = [length (heap st) ..< length (heap st) + length ms];
                    st1 = st\<lparr>heap := heap st @ ms\<rparr>
                in case encode enc texts of
                     Inl e \<Rightarrow> (Inl e, st1)
                   | Inr embeddings \<Rightarrow>
                       (let ix = faiss_add (IndexFlatIP []) (map nrm embeddings)
                        in (Inr (),
                            st1\<lparr>indexes := AList.update cname ix (indexes st1),
                                metadata := (metadata st1)(cname \<mapsto> addrs),
                                index_files := (index_files st1)(cname \<mapsto> ix),
                                metadata_files := (metadata_files st1)(cname \<mapsto> ms)\<rparr>)))))"

text \<open>\<^verbatim>\<open>load_vector_index\<close>: unpickling the metadata creates new dict objects.\<close>

definition load_vector_index ::
  "('v, 's) manager \<Rightarrow> string \<Rightarrow> bool \<times> ('v, 's) manager" where
  "load_vector_index st cname =
     (case index_files st cname of
        None \<Rightarrow> (False, st)
      | Some ix \<Rightarrow>
          (case metadata_files st cname of
             None \<Rightarrow> (False, st)
           | Some ms \<Rightarrow>
               (True,
                st\<lparr>indexes := AList.update cname ix (indexes st),
                   metadata := (metadata st)(cname \<mapsto>
                      [length (heap st) ..< length (heap st) + length ms]),
                   heap := heap st @ ms\<rparr>)))"

section \<open>Retrieval engine\<close>

text \<open>
  The inner loop of \<^verbatim>\<open>search_similar_texts\<close> over
  \<^verbatim>\<open>zip(scores[0], indices[0])\<close> for the corpus \<open>c\<close>. \<open>mds\<close> is
  \<^verbatim>\<open>self.metadata[corpus]\<close>, looked up at each hit (\<open>None\<close>: the key is missing).
  \<open>h\<close> is the object store and \<open>rs\<close> the list \<^verbatim>\<open>results\<close>. The copy of the
  stored dict is a new object, and the two assignments write to that new object.
\<close>

fun collect_results ::
  "string \<Rightarrow> addr list option \<Rightarrow> ('s \<times> int) list \<Rightarrow> 's md list \<Rightarrow> addr list
     \<Rightarrow> (error + addr list) \<times> 's md list" where
  "collect_results c mds [] h rs = (Inr rs, h)"
| "collect_results c mds ((score, idx) # hits) h rs =
     (case mds of
        None \<Rightarrow> (Inl KeyError, h)
      | Some ms \<Rightarrow>
          if idx < int (length ms) then
            (case py_index ms idx of
               Inl e \<Rightarrow> (Inl e, h)
             | Inr a \<Rightarrow>
                 (let r = length h;
                      h1 = h @ [h ! a];
                      h2 = h1[r := (h1 ! r)\<lparr>similarity_score := Some score\<rparr>];
                      h3 = h2[r := (h2 ! r)\<lparr>corpus_name := Some c\<rparr>]
                  in collect_results c mds hits h3 (rs @ [r])))
          else collect_results c mds hits h rs)"

text \<open>The outer loop over \<^verbatim>\<open>corpora_to_search\<close>.\<close>

fun search_corpora ::
  "('v faiss_index \<Rightarrow> 'v \<Rightarrow> int \<Rightarrow> error + ('s \<times> int) list)
     \<Rightarrow> (string \<times> 'v faiss_index) list \<Rightarrow> (string \<rightharpoonup> addr list) \<Rightarrow> 'v \<Rightarrow> int
     \<Rightarrow> string list \<Rightarrow> 's md list \<Rightarrow> addr list \<Rightarrow> (error + addr list) \<times> 's md list" where
  "search_corpora isearch ixs mdm q k [] h rs = (Inr rs, h)"
| "search_corpora isearch ixs mdm q k (c # cs) h rs =
     (case map_of ixs c of
        None \<Rightarrow> search_corpora isearch ixs mdm q k cs h rs
      | Some ix \<Rightarrow>
          (case isearch ix q k of
             Inl e \<Rightarrow> (Inl e, h)
           | Inr hits \<Rightarrow>
               (case collect_results c (mdm c) hits h rs of
                  (Inl e, h') \<Rightarrow> (Inl e, h')
                | (Inr rs', h') \<Rightarrow> search_corpora isearch ixs mdm q k cs h' rs')))"

text \<open>
  \<^verbatim>\<open>results.sort(key=lambda x: x['similarity_score'], reverse=True)\<close>. The keys are
  computed first, one per element; the list is then sorted as CPython does for
  \<^verbatim>\<open>reverse=True\<close>: reversed, sorted by a stable ascending sort, reversed again.
\<close>

fun result_keys :: "'s md list \<Rightarrow> addr list \<Rightarrow> error + ('s \<times> addr) list" where
  "result_keys h [] = Inr []"
| "result_keys h (a # as) =
     (case similarity_score (h ! a) of
        None \<Rightarrow> Inl KeyError
      | Some s \<Rightarrow>
          (case result_keys h as of Inl e \<Rightarrow> Inl e | Inr ks \<Rightarrow> Inr ((s, a) # ks)))"

definition sort_results :: "('s::linorder) md list \<Rightarrow> addr list \<Rightarrow> error + addr list" where
  "sort_results h rs =
     (case result_keys h rs of
        Inl e \<Rightarrow> Inl e
      | Inr ks \<Rightarrow> Inr (map snd (rev (sort_key fst (rev ks)))))"

text \<open>\<^verbatim>\<open>if corpus_name\<close>: \<^verbatim>\<open>None\<close> and the empty string are both false.\<close>

definition name_given :: "string option \<Rightarrow> bool" where
  "name_given cname = (case cname of None \<Rightarrow> False | Some n \<Rightarrow> n \<noteq> [])"

text \<open>The list \<^verbatim>\<open>results\<close> as it is before the sort: everything from the query
  embedding to the end of the loops.\<close>

definition gather_results ::
  "(string \<Rightarrow> error + 'v) \<Rightarrow> ('v \<Rightarrow> 'v)
     \<Rightarrow> ('v faiss_index \<Rightarrow> 'v \<Rightarrow> int \<Rightarrow> error + ('s \<times> int) list)
     \<Rightarrow> ('v, 's) manager \<Rightarrow> string \<Rightarrow> string option \<Rightarrow> int
     \<Rightarrow> (error + addr list) \<times> ('v, 's) manager" where
  "gather_results enc nrm isearch st query cname k =
     (case enc query of
        Inl e \<Rightarrow> (Inl e, st)
      | Inr query_embedding \<Rightarrow>
          (let corpora_to_search =
                 (if name_given cname then [case cname of Some n \<Rightarrow> n | None \<Rightarrow> []]
                  else map fst (indexes st))
           in case search_corpora isearch (indexes st) (metadata st)
                     (nrm query_embedding) k corpora_to_search (heap st) [] of
                (res, h) \<Rightarrow> (res, st\<lparr>heap := h\<rparr>)))"

text \<open>The first statement of \<^verbatim>\<open>search_similar_texts\<close>: a named corpus that is not
  registered is loaded from its files; \<open>False\<close> when there is nothing to load and the
  search returns the empty list at once.\<close>

definition ensure_loaded ::
  "('v, 's) manager \<Rightarrow> string option \<Rightarrow> bool \<times> ('v, 's) manager" where
  "ensure_loaded st cname =
     (case cname of
        None \<Rightarrow> (True, st)
      | Some n \<Rightarrow>
          if n \<noteq> [] \<and> map_of (indexes st) n = None then load_vector_index st n
          else (True, st))"

definition search_similar_texts ::
  "(string \<Rightarrow> error + 'v) \<Rightarrow> ('v \<Rightarrow> 'v)
     \<Rightarrow> ('v faiss_index \<Rightarrow> 'v \<Rightarrow> int \<Rightarrow> error + (('s::linorder) \<times> int) list)
     \<Rightarrow> ('v, 's) manager \<Rightarrow> string \<Rightarrow> string option \<Rightarrow> int
     \<Rightarrow> (error + addr list) \<times> ('v, 's) manager" where
  "search_similar_texts enc nrm isearch st query cname k =
     (case ensure_loaded st cname of
        (False, st1) \<Rightarrow> (Inr [], st1)
      | (True, st1) \<Rightarrow>
          (case gather_results enc nrm isearch st1 query cname k of
             (Inl e, st2) \<Rightarrow> (Inl e, st2)
           | (Inr results, st2) \<Rightarrow>
               (case sort_results (heap st2) results of
                  Inl e \<Rightarrow> (Inl e, st2)
                | Inr sorted_results \<Rightarrow> (Inr (py_slice_to sorted_results k), st2))))"

section \<open>Context assembler\<close>

definition language_names :: "(string \<times> string) list" where
  "language_names =
     [(''es'', ''Spanish''), (''fr'', ''French''), (''de'', ''German''), (''it'', ''Italian''),
      (''pt'', ''Portuguese''), (''ja'', ''Japanese''), (''ko'', ''Korean''),
      (''zh'', ''Chinese''), (''ar'', ''Arabic''), (''hi'', ''Hindi''), (''ur'', ''Urdu''),
      (''ru'', ''Russian''), (''nl'', ''Dutch''), (''sv'', ''Swedish''),
      (''no'', ''Norwegian''), (''da'', ''Danish''), (''pl'', ''Polish''),
      (''tr'', ''Turkish''), (''he'', ''Hebrew''), (''th'', ''Thai''),
      (''vi'', ''Vietnamese'')]"

definition get_language_name :: "string \<Rightarrow> string" where
  "get_language_name code =
     (case map_of language_names code of None \<Rightarrow> code | Some name \<Rightarrow> name)"

text \<open>The f-string of one example: the English text and the target text, each between
  double quotes, on two lines.\<close>

definition format_example :: "string \<Rightarrow> string \<Rightarrow> string \<Rightarrow> string" where
  "format_example target_language en_text target_text =
     ''English: '' @ [CHR 0x22] @ en_text @ [CHR 0x22, CHR 0x0A]
       @ get_language_name target_language @ '': '' @ [CHR 0x22] @ target_text @ [CHR 0x22]"

text \<open>
  The loop of \<^verbatim>\<open>get_context_examples\<close> over the results (the dicts themselves),
  with \<open>acc\<close> the list \<^verbatim>\<open>context_examples\<close>. The test of the length comes after
  the append, and leaves the loop.
\<close>

fun context_examples :: "string \<Rightarrow> int \<Rightarrow> 's md list \<Rightarrow> string list \<Rightarrow> string list" where
  "context_examples target_language max_examples [] acc = acc"
| "context_examples target_language max_examples (r # rs) acc =
     (case map_of (md_translations r) ''en'' of
        None \<Rightarrow> context_examples target_language max_examples rs acc
      | Some en_text \<Rightarrow>
          (case map_of (md_translations r) target_language of
             None \<Rightarrow> context_examples target_language max_examples rs acc
           | Some target_text \<Rightarrow>
               (let acc' = acc @ [format_example target_language en_text target_text]
                in if max_examples \<le> int (length acc') then acc'
                   else context_examples target_language max_examples rs acc')))"

text \<open>\<^verbatim>\<open>sep.join(xs)\<close>.\<close>

fun join :: "string \<Rightarrow> string list \<Rightarrow> string" where
  "join sep [] = []"
| "join sep [x] = x"
| "join sep (x # y # ys) = x @ sep @ join sep (y # ys)"

definition render_context :: "string list \<Rightarrow> string" where
  "render_context examples =
     (if examples \<noteq> []
      then ''Translation examples:'' @ [CHR 0x0A] @ join [CHR 0x0A, CHR 0x0A] examples
             @ [CHR 0x0A, CHR 0x0A]
      else [])"

definition get_context_examples ::
  "(string \<Rightarrow> error + 'v) \<Rightarrow> ('v \<Rightarrow> 'v)
     \<Rightarrow> ('v faiss_index \<Rightarrow> 'v \<Rightarrow> int \<Rightarrow> error + (('s::linorder) \<times> int) list)
     \<Rightarrow> ('v, 's) manager \<Rightarrow> string \<Rightarrow> string \<Rightarrow> int
     \<Rightarrow> (error + string) \<times> ('v, 's) manager" where
  "get_context_examples enc nrm isearch st query target_language max_examples =
     (case search_similar_texts enc nrm isearch st query None (max_examples * 2) of
        (Inl e, st') \<Rightarrow> (Inl e, st')
      | (Inr similar_texts, st') \<Rightarrow>
          (Inr (render_context
                  (context_examples target_language max_examples
                     (map ((!) (heap st')) similar_texts) [])),
           st'))"

text \<open>What a caller reads from a call that returned a list of result dicts.\<close>

definition returned :: "(error + addr list) \<times> ('v, 's) manager \<Rightarrow> 's md list" where
  "returned out =
     (case out of (Inl e, st') \<Rightarrow> [] | (Inr rs, st') \<Rightarrow> map ((!) (heap st')) rs)"

section \<open>Example data\<close>

text \<open>
  Stand-ins for the two external services, used at concrete inputs only. The encoder maps
  a text to one number. The index search answers as \<^verbatim>\<open>IndexFlatIP.search\<close> does:
  \<open>k\<close> pairs of score and position, best first, and when the index holds fewer than
  \<open>k\<close> vectors the missing pairs have position \<open>-1\<close> and the lowest score.
\<close>

definition toy_encode :: "string \<Rightarrow> error + int" where
  "toy_encode t = Inr (int (length t))"

definition no_encoder :: "string \<Rightarrow> error + int" where
  "no_encoder t = Inl ProviderError"

definition flat_search :: "int faiss_index \<Rightarrow> int \<Rightarrow> int \<Rightarrow> error + (int \<times> int) list" where
  "flat_search ix q k =
     (if k \<le> 0 then Inl ProviderError
      else Inr (take (nat k)
             (rev (sort_key fst (zip (map (\<lambda>v. - \<bar>v - q\<bar>) (vectors ix))
                                   (map int [0 ..< length (vectors ix)])))
              @ replicate (nat k - length (vectors ix)) (- 1000000, - 1))))"

definition medical_entries :: "entry list" where
  "medical_entries =
     [[(''en'', ''Blood pressure''), (''es'', ''Presion arterial'')],
      [(''en'', ''Heart rate''), (''es'', ''Frecuencia cardiaca'')],
      [(''en'', ''Take this medication twice daily''), (''es'', ''Tome este medicamento'')]]"

definition new_manager :: "(int, int) manager" where
  "new_manager = \<lparr>corpus_files = Map.empty, index_files = Map.empty,
     metadata_files = Map.empty, indexes = [], metadata = Map.empty, heap = []\<rparr>"

definition medical_saved :: "(int, int) manager" where
  "medical_saved = save_corpus new_manager ''medical'' medical_entries ''2024-01-01T00:00:00''"

definition medical_built :: "(int, int) manager" where
  "medical_built = snd (build_vector_index toy_encode id medical_saved ''medical'' ''en'')"

text \<open>The same manager after a restart: the files are there, nothing is registered.\<close>

definition medical_on_disk :: "(int, int) manager" where
  "medical_on_disk = medical_built\<lparr>indexes := [], metadata := Map.empty, heap := []\<rparr>"

section \<open>Evaluation of the examples\<close>

lemma medical_records:
  "snd (extract_texts ''medical'' ''en'' 0 medical_entries) =
     [\<lparr>corpus = ''medical'', index = 0, md_translations = medical_entries ! 0,
       similarity_score = None, corpus_name = None\<rparr>,
      \<lparr>corpus = ''medical'', index = 1, md_translations = medical_entries ! 1,
       similarity_score = None, corpus_name = None\<rparr>,
      \<lparr>corpus = ''medical'', index = 2, md_translations = medical_entries ! 2,
       similarity_score = None, corpus_name = None\<rparr> :: int md]"
  by (simp add: medical_entries_def eval_nat_numeral)

lemma load_medical_saved: "load_corpus medical_saved ''medical'' = medical_entries"
  by (simp add: medical_saved_def load_corpus_def save_corpus_def)

lemma medical_built_eq:
  "medical_built =
     \<lparr>corpus_files = corpus_files medical_saved,
      index_files = [''medical'' \<mapsto> IndexFlatIP [14, 10, 32]],
      metadata_files = [''medical'' \<mapsto> snd (extract_texts ''medical'' ''en'' 0 medical_entries)],
      indexes = [(''medical'', IndexFlatIP [14, 10, 32])],
      metadata = [''medical'' \<mapsto> [0, 1, 2]],
      heap = snd (extract_texts ''medical'' ''en'' 0 medical_entries)\<rparr>"
  by (simp add: medical_built_def build_vector_index_def load_corpus_def Let_def
      toy_encode_def faiss_add_def upt_rec eval_nat_numeral
      medical_entries_def medical_saved_def save_corpus_def new_manager_def)

lemma flat_search_medical_5:
  "flat_search (IndexFlatIP [14, 10, 32]) 14 5 =
     Inr [(0, 0), (- 4, 1), (- 18, 2), (- 1000000, - 1), (- 1000000, - 1)]"
  by (simp add: flat_search_def upt_rec numeral_eq_Suc)

section \<open>Theorems\<close>

subsection \<open>Corpus store\<close>


subsection \<open>Index builder\<close>

lemma extract_texts_none:
  "\<forall>e\<in>set es. map_of e lang = None \<Longrightarrow> extract_texts c lang i es = ([], [])"
  by (induction es arbitrary: i) auto

text \<open>
  C8. \<^verbatim>\<open>build_vector_index\<close> on missing data: when the corpus is empty or absent, or
  when no entry has the source language, the call returns normally and the manager
  (registry, files and objects) is what it was; the encoder is not consulted, since this
  holds for every encoder, also one that always raises.
\<close>

theorem build_vector_index_no_data:
  assumes "load_corpus st cname = []
           \<or> (\<forall>e\<in>set (load_corpus st cname). map_of e source_lang = None)"
  shows "build_vector_index enc nrm st cname source_lang = (Inr (), st)"
  using assms by (auto simp: build_vector_index_def extract_texts_none Let_def)

theorem build_vector_index_no_data_witness:
  "(load_corpus medical_saved ''medical'' = []
      \<or> (\<forall>e\<in>set (load_corpus medical_saved ''medical''). map_of e ''fr'' = None))
   \<and> build_vector_index no_encoder id medical_saved ''medical'' ''fr'' = (Inr (), medical_saved)
   \<and> build_vector_index no_encoder id medical_saved ''legal'' ''en'' = (Inr (), medical_saved)"
proof -
  have h1: "load_corpus medical_saved ''medical'' = []
      \<or> (\<forall>e\<in>set (load_corpus medical_saved ''medical''). map_of e ''fr'' = None)"
    by (simp add: load_medical_saved medical_entries_def)
  have h2: "load_corpus medical_saved ''legal'' = []
      \<or> (\<forall>e\<in>set (load_corpus medical_saved ''legal''). map_of e ''en'' = None)"
    by (simp add: load_corpus_def medical_saved_def save_corpus_def new_manager_def)
  show ?thesis
    using h1 build_vector_index_no_data [OF h1, of no_encoder id]
      build_vector_index_no_data [OF h2, of no_encoder id]
    by simp
qed

lemma extract_texts_enumerate:
  "extract_texts c lang i es =
     (map (\<lambda>p. the (map_of (snd p) lang)) (filter (\<lambda>p. map_of (snd p) lang \<noteq> None) (List.enumerate i es)),
      map (\<lambda>p. \<lparr>corpus = c, index = fst p, md_translations = snd p,
                similarity_score = None, corpus_name = None\<rparr>) (filter (\<lambda>p. map_of (snd p) lang \<noteq> None) (List.enumerate i es)))"
  by (induction es arbitrary: i) (auto split: option.splits)

lemma encode_Inr:
  "encode enc ts = Inr vs \<Longrightarrow> length vs = length ts \<and> (\<forall>i<length ts. enc (ts ! i) = Inr (vs ! i))"
proof (induction ts arbitrary: vs)
  case Nil then show ?case by simp
next
  case (Cons t ts)
  then show ?case by (auto split: sum.splits simp: nth_Cons split: nat.splits)
qed

lemma filter_enumerate_index:
  "map fst (filter (\<lambda>p. P (snd p)) (List.enumerate 0 xs)) = filter (\<lambda>j. P (xs ! j)) [0..<length xs]"
proof -
  have "filter (\<lambda>j. P (xs ! j)) [0..<length xs]
      = filter (\<lambda>j. P (xs ! j)) (map fst (List.enumerate 0 xs))"
    by simp
  also have "\<dots> = map fst (filter ((\<lambda>j. P (xs ! j)) \<circ> fst) (List.enumerate 0 xs))"
    by (rule filter_map)
  also have "filter ((\<lambda>j. P (xs ! j)) \<circ> fst) (List.enumerate 0 xs)
      = filter (\<lambda>p. P (snd p)) (List.enumerate 0 xs)"
    by (rule filter_cong) (auto simp: in_set_enumerate_eq)
  finally show ?thesis by simp
qed

lemma extract_texts_some:
  "\<exists>e\<in>set es. map_of e lang \<noteq> None \<Longrightarrow> fst (extract_texts c lang i es) \<noteq> []"
  by (induction es arbitrary: i) (auto split: option.splits prod.splits)

lemma map_nth_append_upt: "map ((!) (h @ ms)) [length h ..< length h + length ms] = ms"
  by (rule nth_equalityI) (simp_all add: nth_append)

text \<open>
  C4. After \<^verbatim>\<open>build_vector_index\<close> has built an index (the call returned and some
  entry has the source source_language), the registered metadata sequence of the corpus has one
  record per vector of the registered index, in the same order. The positional indexes of
  the records are, in increasing order, the positions of the corpus entries that have the
  source source_language; the record at position \<open>i\<close> carries the corpus name, the entry at its
  positional index as its translations, and vector \<open>i\<close> of the index is the normalised
  embedding of that entry's source-language text. The persisted pair equals the registered
  one.
\<close>

theorem build_vector_index_alignment:
  fixes st st' :: "('v, 's) manager"
  assumes b: "build_vector_index enc nrm st cname source_lang = (Inr (), st')"
      and ex: "\<exists>e\<in>set (load_corpus st cname). map_of e source_lang \<noteq> None"
  shows "\<exists>ix addrs. map_of (indexes st') cname = Some ix \<and> metadata st' cname = Some addrs
      \<and> length addrs = length (vectors ix)
      \<and> map (index \<circ> (!) (heap st')) addrs
          = filter (\<lambda>j. map_of (load_corpus st cname ! j) source_lang \<noteq> None) [0..<length (load_corpus st cname)]
      \<and> (\<forall>i<length addrs.
            corpus (heap st' ! (addrs ! i)) = cname
          \<and> md_translations (heap st' ! (addrs ! i)) = load_corpus st cname ! index (heap st' ! (addrs ! i))
          \<and> (\<exists>t v. map_of (md_translations (heap st' ! (addrs ! i))) source_lang = Some t
                  \<and> enc t = Inr v \<and> vectors ix ! i = nrm v))
      \<and> index_files st' cname = Some ix
      \<and> metadata_files st' cname = Some (map ((!) (heap st')) addrs)"
proof -
  define data where "data = load_corpus st cname"
  define sel where "sel = filter (\<lambda>p. map_of (snd p) source_lang \<noteq> None) (List.enumerate 0 data)"
  define ts where "ts = map (\<lambda>p. the (map_of (snd p) source_lang)) sel"
  define ms :: "'s md list" where "ms = map (\<lambda>p. \<lparr>corpus = cname, index = fst p, md_translations = snd p,
                similarity_score = None, corpus_name = None\<rparr>) sel"
  have ext: "extract_texts cname source_lang 0 data = (ts, ms)"
    by (simp add: extract_texts_enumerate ts_def ms_def sel_def)
  from ex have "data \<noteq> []" by (auto simp: data_def)
  have "fst (extract_texts cname source_lang 0 data :: string list \<times> 's md list) \<noteq> []"
    using ex unfolding data_def by (rule extract_texts_some)
  then have "ts \<noteq> []" by (simp add: ext)
  from b \<open>data \<noteq> []\<close> \<open>ts \<noteq> []\<close> ext
  obtain vs where enc: "encode enc ts = Inr vs"
    and st': "st' = st\<lparr>heap := heap st @ ms,
        indexes := AList.update cname (IndexFlatIP (map nrm vs)) (indexes st),
        metadata := (metadata st)(cname \<mapsto> [length (heap st) ..< length (heap st) + length ms]),
        index_files := (index_files st)(cname \<mapsto> IndexFlatIP (map nrm vs)),
        metadata_files := (metadata_files st)(cname \<mapsto> ms)\<rparr>"
    by (auto simp: build_vector_index_def Let_def faiss_add_def simp flip: data_def
        split: sum.splits)
  let ?addrs = "[length (heap st) ..< length (heap st) + length ms]"
  have deref: "map ((!) (heap st')) ?addrs = ms"
    by (simp add: st' map_nth_append_upt)
  have len: "length vs = length ts" and vs: "\<forall>i<length ts. enc (ts ! i) = Inr (vs ! i)"
    using encode_Inr [OF enc] by simp_all
  have lts: "length ts = length ms" by (simp add: ts_def ms_def)
  have idx: "map index ms = filter (\<lambda>j. map_of (data ! j) source_lang \<noteq> None) [0..<length data]"
    using filter_enumerate_index [of "\<lambda>e. map_of e source_lang \<noteq> None" data]
    by (simp add: ms_def sel_def comp_def)
  have rec: "corpus (ms ! i) = cname \<and> md_translations (ms ! i) = data ! index (ms ! i)
      \<and> map_of (md_translations (ms ! i)) source_lang = Some (ts ! i)" if "i < length ms" for i
  proof -
    from that have i: "i < length sel" by (simp add: ms_def)
    then have "sel ! i \<in> set sel" by simp
    then have "sel ! i \<in> set (List.enumerate 0 data)" and "map_of (snd (sel ! i)) source_lang \<noteq> None"
      by (auto simp: sel_def)
    then show ?thesis using i
      by (auto simp: ms_def ts_def in_set_enumerate_eq)
  qed
  show ?thesis
  proof (rule exI [of _ "IndexFlatIP (map nrm vs)"], rule exI [of _ ?addrs], intro conjI allI impI)
    show "map_of (indexes st') cname = Some (IndexFlatIP (map nrm vs))"
      by (simp add: st' update_conv')
    show "metadata st' cname = Some ?addrs" by (simp add: st')
    show "length ?addrs = length (vectors (IndexFlatIP (map nrm vs)))"
      by (simp add: len lts)
    show "map (index \<circ> (!) (heap st')) ?addrs
        = filter (\<lambda>j. map_of (load_corpus st cname ! j) source_lang \<noteq> None) [0..<length (load_corpus st cname)]"
      using deref idx by (simp add: data_def flip: map_map)
    show "index_files st' cname = Some (IndexFlatIP (map nrm vs))" by (simp add: st')
    show "metadata_files st' cname = Some (map ((!) (heap st')) ?addrs)"
      unfolding deref by (simp add: st')
  next
    fix i assume "i < length ?addrs"
    then have i: "i < length ms" by simp
    then have r: "heap st' ! (?addrs ! i) = ms ! i"
      by (simp add: st' nth_append)
    show "corpus (heap st' ! (?addrs ! i)) = cname"
      unfolding r using rec [OF i] by simp
    show "md_translations (heap st' ! (?addrs ! i)) = load_corpus st cname ! index (heap st' ! (?addrs ! i))"
      unfolding r using rec [OF i] by (simp add: data_def)
    show "\<exists>t v. map_of (md_translations (heap st' ! (?addrs ! i))) source_lang = Some t
        \<and> enc t = Inr v \<and> vectors (IndexFlatIP (map nrm vs)) ! i = nrm v"
      unfolding r using rec [OF i] vs i lts len by auto
  qed
qed


lemma build_medical:
  "build_vector_index toy_encode id medical_saved ''medical'' ''en'' = (Inr (), medical_built)"
proof -
  have "fst (build_vector_index toy_encode id medical_saved ''medical'' ''en'') = Inr ()"
    by (simp add: build_vector_index_def load_corpus_def Let_def toy_encode_def
        medical_entries_def medical_saved_def save_corpus_def new_manager_def)
  then show ?thesis by (simp add: medical_built_def prod_eq_iff)
qed

theorem build_vector_index_alignment_witness:
  "build_vector_index toy_encode id medical_saved ''medical'' ''en'' = (Inr (), medical_built)
   \<and> (\<exists>e\<in>set (load_corpus medical_saved ''medical''). map_of e ''en'' \<noteq> None)
   \<and> (\<exists>ix addrs. map_of (indexes medical_built) ''medical'' = Some ix
        \<and> metadata medical_built ''medical'' = Some addrs
        \<and> length addrs = length (vectors ix)
        \<and> map (index \<circ> (!) (heap medical_built)) addrs
            = filter (\<lambda>j. map_of (load_corpus medical_saved ''medical'' ! j) ''en'' \<noteq> None)
                [0..<length (load_corpus medical_saved ''medical'')]
        \<and> (\<forall>i<length addrs.
              corpus (heap medical_built ! (addrs ! i)) = ''medical''
            \<and> md_translations (heap medical_built ! (addrs ! i))
                = load_corpus medical_saved ''medical'' ! index (heap medical_built ! (addrs ! i))
            \<and> (\<exists>t v. map_of (md_translations (heap medical_built ! (addrs ! i))) ''en'' = Some t
                    \<and> toy_encode t = Inr v \<and> vectors ix ! i = id v))
        \<and> index_files medical_built ''medical'' = Some ix
        \<and> metadata_files medical_built ''medical'' = Some (map ((!) (heap medical_built)) addrs))"
proof -
  have h2: "\<exists>e\<in>set (load_corpus medical_saved ''medical''). map_of e ''en'' \<noteq> None"
    by (simp add: load_medical_saved medical_entries_def)
  show ?thesis
    using build_medical h2 build_vector_index_alignment [OF build_medical h2] by blast
qed

subsection \<open>Retrieval engine\<close>



text \<open>
  C1. The join of a returned position with the metadata sequence, at a corpus of three
  entries searched with \<open>k = 5\<close>: the index answers three hits and two padding pairs of
  position \<open>-1\<close>. The guard \<^verbatim>\<open>idx < len(self.metadata[corpus])\<close> lets \<open>-1\<close> through
  and \<^verbatim>\<open>self.metadata[corpus][-1]\<close> is the last record, so the search returns five
  results, the last two being copies of the record at position 2 with the padding score.
\<close>

theorem search_joins_padding_position:
  "fst (search_similar_texts toy_encode id flat_search medical_built ''Blood pressure''
          (Some ''medical'') 5) = Inr [3, 4, 5, 6, 7]
   \<and> map index (returned (search_similar_texts toy_encode id flat_search medical_built
          ''Blood pressure'' (Some ''medical'') 5)) = [0, 1, 2, 2, 2]
   \<and> map similarity_score (returned (search_similar_texts toy_encode id flat_search
          medical_built ''Blood pressure'' (Some ''medical'') 5))
        = [Some 0, Some (- 4), Some (- 18), Some (- 1000000), Some (- 1000000)]"
  by (simp add: search_similar_texts_def ensure_loaded_def gather_results_def name_given_def
      medical_built_eq toy_encode_def flat_search_medical_5 medical_records)
    (simp add: py_index_def Let_def sort_results_def py_slice_to_def returned_def
      eval_nat_numeral)

end
